theory Spec2Isabelle
  imports Main
begin

section \<open>Data model of the worker (src/app/worker.ts)\<close>

text \<open>
  The worker is glue around external services: the PDF parser, the text splitter, the
  vector store and the chat model. Each service is a field of the environment record
  below; every call may be rejected, so its result is a sum with the error on the left.
  The worker's own effects (posting an event, asking the model, querying or filling the
  vector store) are recorded, in program order, in a list of actions.
\<close>

datatype error = TypeError | Rejected string

text \<open>
  A chat message as the worker reads it: the fields \<open>role\<close> and \<open>content\<close>. The
  declaration of \<open>ChatWindowMessage\<close> is imported from another module; the worker only
  compares \<open>role\<close> with the literal \<open>human\<close> and prints it, so \<open>role\<close> is a string here.
\<close>

record ChatWindowMessage =
  role :: string
  content :: string

text \<open>
  The metadata object built at lines 104-114. A field that JavaScript leaves
  \<open>undefined\<close> is \<open>None\<close>; the XMP metadata of pdf.js may itself be \<open>null\<close>, which
  is the inner \<open>None\<close>.
\<close>

type_synonym pdf_info = "(string \<times> string) list"
type_synonym pdf_xmp = "(string \<times> string) list option"

record pdf_fields =
  version :: string
  info :: "pdf_info option"
  metadata :: "pdf_xmp option"
  totalPages :: nat

record loc_fields =
  pageNumber :: nat

record doc_metadata =
  pdf :: pdf_fields
  loc :: loc_fields

text \<open>
  A document of langchain (\<open>langchain/document\<close>). At run time its \<open>pageContent\<close> may be
  \<open>undefined\<close>, which is \<open>None\<close>.
\<close>

record Document =
  pageContent :: "string option"
  doc_meta :: doc_metadata

text \<open>
  \<open>new Document({pageContent, metadata})\<close>. The class belongs to langchain, not to the
  worker: its constructor keeps the content it is given only when that is truthy, so the
  empty string leaves \<open>pageContent\<close> undefined.
\<close>

definition newDocument :: "string \<Rightarrow> doc_metadata \<Rightarrow> Document" where
  "newDocument content_given meta =
     \<lparr>pageContent = (if content_given \<noteq> [] then Some content_given else None),
      doc_meta = meta\<rparr>"

text \<open>The messages of a chat prompt (\<open>langchain/schema\<close>).\<close>

datatype BaseMessage = SystemMessage string | HumanMessage string | AIMessage string

text \<open>
  A value of the \<open>pdf\<close> field of an inbound event, as far as its truthiness and its
  being a string matter (lines 184 and 80).
\<close>

datatype js_value =
  JUndefined | JNull | JBool bool | JNumber int | JNaN | JString string | JObject

fun truthy :: "js_value \<Rightarrow> bool" where
  "truthy JUndefined = False"
| "truthy JNull = False"
| "truthy (JBool b) = b"
| "truthy (JNumber n) = (n \<noteq> 0)"
| "truthy JNaN = False"
| "truthy (JString s) = (s \<noteq> [])"
| "truthy JObject = True"

text \<open>\<open>event.data\<close>: both fields are optional on the wire.\<close>

record inbound =
  pdf_field :: js_value
  messages_field :: "ChatWindowMessage list option"

text \<open>
  The events posted to the host page. The payload of the first \<open>log\<close> event is the text
  \<open>Received: \<close> followed by the JSON rendering of the inbound data; it is kept as the
  data it renders.
\<close>

datatype log_data = Received inbound | Docs "Document list"

datatype event = Log log_data | Chunk string | Complete string

text \<open>The options given to the text splitter (lines 119-122).\<close>

record splitter_config =
  chunkSize :: nat
  chunkOverlap :: nat

datatype action =
    Post event
  | SplitDocuments splitter_config "Document list"
  | AddDocuments "Document list"
  | Invoke string
  | Retrieve string
  | Stream "BaseMessage list"

text \<open>A parsed PDF (pdf.js): page \<open>i\<close> and its text items, each behind a promise.\<close>

record TextItem =
  str :: string

record pdf_page =
  getTextContent :: "error + TextItem list"

record pdf_meta =
  meta_info :: "pdf_info option"
  meta_metadata :: pdf_xmp

record parsed_pdf =
  numPages :: nat
  getMetadata :: "error + pdf_meta"
  getPage :: "nat \<Rightarrow> error + pdf_page"

text \<open>
  The external services. \<open>llm_stream\<close> gives the fragments the model stream yields and,
  when the stream breaks off (or never starts), the error that ends it.
\<close>

record env =
  pdf_version :: string
  atob :: "string option \<Rightarrow> error + string"
  getDocument :: "string \<Rightarrow> error + parsed_pdf"
  splitDocuments :: "splitter_config \<Rightarrow> Document list \<Rightarrow> error + Document list"
  addDocuments :: "Document list \<Rightarrow> error + unit"
  llm_invoke :: "string \<Rightarrow> error + string"
  retriever :: "string \<Rightarrow> error + Document list"
  llm_stream :: "BaseMessage list \<Rightarrow> string list \<times> error option"

section \<open>Strings\<close>

definition nl :: string where
  "nl = [CHR 0x0A]"

text \<open>\<open>Array.prototype.join\<close>.\<close>

fun join :: "string \<Rightarrow> string list \<Rightarrow> string" where
  "join sep [] = []"
| "join sep [x] = x"
| "join sep (x # y # ys) = x @ sep @ join sep (y # ys)"

text \<open>The decimal rendering of an array index inside a template literal.\<close>

fun digits :: "nat \<Rightarrow> string" where
  "digits n =
     (if n < 10 then [''0123456789'' ! n]
      else digits (n div 10) @ [''0123456789'' ! (n mod 10)])"

declare digits.simps [simp del]

section \<open>Prompts (lines 31-54)\<close>

definition REPHRASE_HEAD :: string where
  "REPHRASE_HEAD =
     ''Given the following conversation and a follow up question, rephrase the follow up question to be a standalone question.''
     @ nl @ nl @ ''Chat History:'' @ nl"

definition REPHRASE_MID :: string where
  "REPHRASE_MID = nl @ ''Follow Up Input: ''"

definition REPHRASE_TAIL :: string where
  "REPHRASE_TAIL = nl @ ''Standalone Question:''"

record retrieval_input =
  question :: string
  chat_history :: string

text \<open>
  \<open>PromptTemplate.fromTemplate(REPHRASE_QUESTION_TEMPLATE)\<close> applied to its input: the
  two placeholders are replaced by the values.
\<close>

definition rephraseQuestionChainPrompt :: "retrieval_input \<Rightarrow> string" where
  "rephraseQuestionChainPrompt inp =
     REPHRASE_HEAD @ chat_history inp @ REPHRASE_MID @ question inp @ REPHRASE_TAIL"

definition RESPONSE_SYSTEM_HEAD :: string where
  "RESPONSE_SYSTEM_HEAD =
     ''You are an experienced researcher, expert at interpreting and answering questions based on provided sources. Using the provided context, answer the user's question to the best of your ability using the resources provided.''
     @ nl @
     ''Generate a comprehensive and informative answer (but no more than 80 words) for a given question based solely on the provided search results (URL and content). You must only use information from the provided search results. Use an unbiased and journalistic tone. Combine search results together into a coherent answer. Do not repeat text.''
     @ nl @
     ''If there is nothing in the context relevant to the question at hand, just say \"Hmm, I'm not sure.\" Don't try to make up an answer.''
     @ nl @
     ''Anything between the following `context` html blocks is retrieved from a knowledge bank, not part of the conversation with the user.''
     @ nl @ ''<context>'' @ nl @ ''    ''"

definition RESPONSE_SYSTEM_TAIL :: string where
  "RESPONSE_SYSTEM_TAIL =
     nl @ ''<context/>'' @ nl @ nl @
     ''REMEMBER: If there is no relevant information within the context, just say \"Hmm, I'm not sure.\" Don't try to make up an answer. Anything between the preceding 'context' html blocks is retrieved from a knowledge bank, not part of the conversation with the user.''"

record response_input =
  r_context :: string
  r_chat_history :: "BaseMessage list"
  r_question :: string

definition responseChainPrompt :: "response_input \<Rightarrow> BaseMessage list" where
  "responseChainPrompt inp =
     SystemMessage (RESPONSE_SYSTEM_HEAD @ r_context inp @ RESPONSE_SYSTEM_TAIL)
       # r_chat_history inp @ [HumanMessage (r_question inp)]"

text \<open>
  \<open>formatDocs\<close> (lines 56-58): \<open>i\<close> is the index of the document in the list. A
  template literal prints an undefined content as the word \<open>undefined\<close>.
\<close>

fun formatDoc :: "nat \<Rightarrow> Document \<Rightarrow> string" where
  "formatDoc i doc = ''<doc id='' @ [CHR 0x27] @ digits i @ [CHR 0x27] @ ''>''
      @ (case pageContent doc of None \<Rightarrow> ''undefined'' | Some c \<Rightarrow> c) @ ''</doc>''"

definition formatDocs :: "Document list \<Rightarrow> string" where
  "formatDocs docs = join nl (map (\<lambda>(i, doc). formatDoc i doc) (enumerate 0 docs))"

section \<open>The query flow (lines 60-76 and 134-175)\<close>

text \<open>
  \<open>createRetrievalChain\<close> followed by \<open>invoke\<close>: the steps of the sequence run in order
  and the first rejection ends the run. The result is the actions done and the
  formatted documents.
\<close>

definition createRetrievalChain ::
  "env \<Rightarrow> ChatWindowMessage list \<Rightarrow> retrieval_input \<Rightarrow> action list \<times> (error + string)" where
  "createRetrievalChain e chatHistory inp =
     (if length chatHistory \<noteq> 0 then
        (let p = rephraseQuestionChainPrompt inp in
         case llm_invoke e p of
           Inl err \<Rightarrow> ([Invoke p], Inl err)
         | Inr standalone \<Rightarrow>
             (case retriever e standalone of
                Inl err \<Rightarrow> ([Invoke p, Retrieve standalone], Inl err)
              | Inr docs \<Rightarrow> ([Invoke p, Retrieve standalone], Inr (formatDocs docs))))
      else
        (let q = question inp in
         case retriever e q of
           Inl err \<Rightarrow> ([Retrieve q], Inl err)
         | Inr docs \<Rightarrow> ([Retrieve q], Inr (formatDocs docs))))"

text \<open>The \<open>for await\<close> loop of lines 162-169 over the fragments the stream yields.\<close>

fun relay :: "string list \<Rightarrow> action list" where
  "relay [] = []"
| "relay (chunk # rest) =
     (if chunk \<noteq> [] then Post (Chunk chunk) # relay rest else relay rest)"

definition toBaseMessage :: "ChatWindowMessage \<Rightarrow> BaseMessage" where
  "toBaseMessage chatMessage =
     (if role chatMessage = ''human'' then HumanMessage (content chatMessage)
      else AIMessage (content chatMessage))"

definition historyLine :: "ChatWindowMessage \<Rightarrow> string" where
  "historyLine message = role message @ '': '' @ content message"

text \<open>
  \<open>queryVectorStore\<close>. Reading \<open>length\<close> of an absent array, or \<open>content\<close> of the
  element at index \<open>length - 1\<close> of an empty one, throws a TypeError before anything
  else happens.
\<close>

definition queryVectorStore ::
  "env \<Rightarrow> ChatWindowMessage list option \<Rightarrow> action list \<times> (error + unit)" where
  "queryVectorStore e msgs =
     (case msgs of
        None \<Rightarrow> ([], Inl TypeError)
      | Some messages \<Rightarrow>
          if messages = [] then ([], Inl TypeError)
          else
            (let text = content (last messages);
                 chatHistory = butlast messages;
                 (t1, r1) = createRetrievalChain e chatHistory
                   \<lparr>question = text,
                    chat_history = join nl (map historyLine chatHistory)\<rparr>
             in case r1 of
                  Inl err \<Rightarrow> (t1, Inl err)
                | Inr formattedDocs \<Rightarrow>
                    (let p = responseChainPrompt
                           \<lparr>r_context = formattedDocs,
                            r_chat_history = map toBaseMessage chatHistory,
                            r_question = text\<rparr>;
                         (fragments, failure) = llm_stream e p;
                         t2 = t1 @ [Stream p] @ relay fragments
                     in case failure of
                          Some err \<Rightarrow> (t2, Inl err)
                        | None \<Rightarrow> (t2 @ [Post (Complete ''OK'')], Inr ()))))"

section \<open>The ingest flow (lines 78-132)\<close>

text \<open>\<open>String.prototype.split\<close> with a one-character separator.\<close>

fun split_on :: "char \<Rightarrow> string \<Rightarrow> string list" where
  "split_on c [] = [[]]"
| "split_on c (x # xs) =
     (if x = c then [] # split_on c xs
      else (case split_on c xs of
              [] \<Rightarrow> [[x]]
            | y # ys \<Rightarrow> (x # y) # ys))"

text \<open>Reading index \<open>i\<close> of an array: \<open>undefined\<close> when out of range.\<close>

fun index :: "'a list \<Rightarrow> nat \<Rightarrow> 'a option" where
  "index [] i = None"
| "index (x # xs) 0 = Some x"
| "index (x # xs) (Suc i) = index xs i"

text \<open>The document pushed for page \<open>i\<close> (lines 97-116).\<close>

definition pageDocument ::
  "env \<Rightarrow> parsed_pdf \<Rightarrow> pdf_meta option \<Rightarrow> nat \<Rightarrow> TextItem list \<Rightarrow> Document" where
  "pageDocument e parsedPdf meta i items =
     newDocument (join nl (map str items))
       \<lparr>pdf = \<lparr>version = pdf_version e,
                info = (case meta of None \<Rightarrow> None | Some m \<Rightarrow> meta_info m),
                metadata = (case meta of None \<Rightarrow> None | Some m \<Rightarrow> Some (meta_metadata m)),
                totalPages = numPages parsedPdf\<rparr>,
        loc = \<lparr>pageNumber = i\<rparr>\<rparr>"

text \<open>
  The loop of lines 89-117, from page \<open>i\<close> on, with the documents pushed so far. A
  rejected \<open>getPage\<close> or \<open>getTextContent\<close> ends the flow.
\<close>

function pagesLoop ::
  "env \<Rightarrow> parsed_pdf \<Rightarrow> pdf_meta option \<Rightarrow> nat \<Rightarrow> Document list \<Rightarrow> error + Document list" where
  "pagesLoop e parsedPdf meta i documents =
     (if i \<le> numPages parsedPdf then
        (case getPage parsedPdf i of
           Inl err \<Rightarrow> Inl err
         | Inr page \<Rightarrow>
             (case getTextContent page of
                Inl err \<Rightarrow> Inl err
              | Inr items \<Rightarrow>
                  if length items = 0 then pagesLoop e parsedPdf meta (i + 1) documents
                  else pagesLoop e parsedPdf meta (i + 1)
                         (documents @ [pageDocument e parsedPdf meta i items])))
      else Inr documents)"
  by pat_completeness auto
termination
  by (relation "measure (\<lambda>(e, parsedPdf, meta, i, documents). Suc (numPages parsedPdf) - i)") auto

declare pagesLoop.simps [simp del]

definition splitterConfig :: splitter_config where
  "splitterConfig = \<lparr>chunkSize = 500, chunkOverlap = 50\<rparr>"

text \<open>
  \<open>embedPDF\<close>. The argument is whatever the \<open>pdf\<close> field held; only a string has a
  \<open>split\<close> method. A rejected \<open>getMetadata\<close> is caught and gives \<open>null\<close> (line 85).
\<close>

definition embedPDF :: "env \<Rightarrow> js_value \<Rightarrow> action list \<times> (error + unit)" where
  "embedPDF e pdfDataUrl =
     (case pdfDataUrl of
        JString url \<Rightarrow>
          (case atob e (index (split_on CHR '','' url) 1) of
             Inl err \<Rightarrow> ([], Inl err)
           | Inr bytes \<Rightarrow>
               (case getDocument e bytes of
                  Inl err \<Rightarrow> ([], Inl err)
                | Inr parsedPdf \<Rightarrow>
                    (let meta = (case getMetadata parsedPdf of
                                   Inl err \<Rightarrow> None
                                 | Inr m \<Rightarrow> Some m)
                     in case pagesLoop e parsedPdf meta 1 [] of
                          Inl err \<Rightarrow> ([], Inl err)
                        | Inr documents \<Rightarrow>
                            (case splitDocuments e splitterConfig documents of
                               Inl err \<Rightarrow> ([SplitDocuments splitterConfig documents], Inl err)
                             | Inr docs \<Rightarrow>
                                 (let t = [SplitDocuments splitterConfig documents,
                                           Post (Log (Docs docs)), AddDocuments docs]
                                  in case addDocuments e docs of
                                       Inl err \<Rightarrow> (t, Inl err)
                                     | Inr u \<Rightarrow> (t, Inr ()))))))
      | _ \<Rightarrow> ([], Inl TypeError))"

section \<open>The message handler (lines 178-194)\<close>

definition handler :: "env \<Rightarrow> inbound \<Rightarrow> action list \<times> (error + unit)" where
  "handler e data =
     (let t0 = [Post (Log (Received data))];
          (t, r) = (if truthy (pdf_field data) then embedPDF e (pdf_field data)
                    else queryVectorStore e (messages_field data))
      in case r of
           Inl err \<Rightarrow> (t0 @ t, Inl err)
         | Inr u \<Rightarrow> (t0 @ t @ [Post (Complete ''OK'')], Inr ()))"

text \<open>The events among the actions, in order.\<close>

fun events :: "action list \<Rightarrow> event list" where
  "events [] = []"
| "events (Post ev # rest) = ev # events rest"
| "events (a # rest) = events rest"

section \<open>Reading a run\<close>

text \<open>The answer fragments among the events, in order.\<close>

fun chunks :: "event list \<Rightarrow> string list" where
  "chunks [] = []"
| "chunks (Chunk c # rest) = c # chunks rest"
| "chunks (ev # rest) = chunks rest"

text \<open>The calls of the retrieval step: the rephrasing model call and the index query.\<close>

fun isRetrievalCall :: "action \<Rightarrow> bool" where
  "isRetrievalCall (Invoke p) = True"
| "isRetrievalCall (Retrieve q) = True"
| "isRetrievalCall a = False"

text \<open>The actions only the query flow does, and those only the ingest flow does.\<close>

fun isQueryAction :: "action \<Rightarrow> bool" where
  "isQueryAction (Invoke p) = True"
| "isQueryAction (Retrieve q) = True"
| "isQueryAction (Stream p) = True"
| "isQueryAction (Post (Chunk c)) = True"
| "isQueryAction a = False"

fun isIngestAction :: "action \<Rightarrow> bool" where
  "isIngestAction (SplitDocuments cfg ds) = True"
| "isIngestAction (AddDocuments ds) = True"
| "isIngestAction (Post (Log (Docs ds))) = True"
| "isIngestAction a = False"


text \<open>A document with the \<open>info\<close> and \<open>metadata\<close> fields left \<open>undefined\<close>.\<close>

definition absentMeta :: "Document \<Rightarrow> Document" where
  "absentMeta d =
     d\<lparr>doc_meta := (doc_meta d)\<lparr>pdf := (pdf (doc_meta d))\<lparr>info := None, metadata := None\<rparr>\<rparr>\<rparr>"

section \<open>The text splitter\<close>




section \<open>Sample inputs\<close>

text \<open>
  A three-page PDF whose second page has no text items, and services that always
  succeed: the splitter returns the documents as they are, the index is empty, the model
  streams three fragments, the second of them empty.
\<close>

definition demo_pdf :: parsed_pdf where
  "demo_pdf =
     \<lparr>numPages = 3,
      getMetadata = Inr \<lparr>meta_info = Some [(''Title'', ''Demo'')], meta_metadata = None\<rparr>,
      getPage = (\<lambda>i. if i = 1 then Inr \<lparr>getTextContent = Inr [\<lparr>str = ''Hello''\<rparr>, \<lparr>str = ''World''\<rparr>]\<rparr>
                     else if i = 2 then Inr \<lparr>getTextContent = Inr []\<rparr>
                     else if i = 3 then Inr \<lparr>getTextContent = Inr [\<lparr>str = ''Bye''\<rparr>]\<rparr>
                     else Inl (Rejected ''Invalid page request''))\<rparr>"

definition demo_env :: env where
  "demo_env =
     \<lparr>pdf_version = ''1.10.100'',
      atob = (\<lambda>x. case x of None \<Rightarrow> Inl (Rejected ''InvalidCharacterError'') | Some s \<Rightarrow> Inr s),
      getDocument = (\<lambda>bytes. Inr demo_pdf),
      splitDocuments = (\<lambda>cfg ds. Inr ds),
      addDocuments = (\<lambda>ds. Inr ()),
      llm_invoke = (\<lambda>p. Inr ''What is the title?''),
      retriever = (\<lambda>q. Inr []),
      llm_stream = (\<lambda>p. ([''Hmm'', [], '', I am not sure.''], None))\<rparr>"

definition demo_question :: ChatWindowMessage where
  "demo_question = \<lparr>role = ''human'', content = ''And the title?''\<rparr>"

definition demo_history :: "ChatWindowMessage list" where
  "demo_history = [\<lparr>role = ''human'', content = ''Hi''\<rparr>, \<lparr>role = ''ai'', content = ''Hello''\<rparr>]"

text \<open>A data URL; the sample \<open>atob\<close> hands the payload on as it is.\<close>

definition demo_url :: string where
  "demo_url = ''data:application/pdf;base64,JVBERi0=''"

text \<open>The same services, with a PDF whose metadata cannot be read.\<close>

definition demo_env_no_meta :: env where
  "demo_env_no_meta =
     demo_env\<lparr>getDocument := (\<lambda>bytes. Inr (demo_pdf\<lparr>getMetadata := Inl (Rejected ''no metadata'')\<rparr>))\<rparr>"





section \<open>Properties of the query flow\<close>

lemma events_append: "events (xs @ ys) = events xs @ events ys"
  by (induction xs rule: events.induct) auto

lemma chunks_append: "chunks (xs @ ys) = chunks xs @ chunks ys"
  by (induction xs rule: chunks.induct) auto

lemma events_relay: "events (relay fs) = map Chunk (filter (\<lambda>c. c \<noteq> []) fs)"
  by (induction fs) auto

lemma chunks_map_Chunk: "chunks (map Chunk cs) = cs"
  by (induction cs) auto

lemma relay_no_call: "filter isRetrievalCall (relay fs) = []"
  by (induction fs) auto

lemma relay_Stream: "Stream p \<notin> set (relay fs)"
  by (induction fs) auto

lemma retrieval_trace:
  "createRetrievalChain e h inp = (t, r) \<Longrightarrow>
     events t = [] \<and> (\<forall>p. Stream p \<notin> set t)"
  by (auto simp: createRetrievalChain_def Let_def split: if_splits sum.splits)

lemma query_chunks:
  assumes "queryVectorStore e msgs = (t, r)" and "Stream p \<in> set t"
  shows "chunks (events t) = filter (\<lambda>c. c \<noteq> []) (fst (llm_stream e p))"
  using assms
  apply (auto simp: queryVectorStore_def Let_def events_append chunks_append events_relay chunks_map_Chunk relay_Stream
      split: option.splits if_splits prod.splits sum.splits dest: retrieval_trace)
  done

lemma embedPDF_trace:
  "fst (embedPDF e v) = [] \<or>
   (\<exists>documents. fst (embedPDF e v) = [SplitDocuments splitterConfig documents]) \<or>
   (\<exists>documents docs. splitDocuments e splitterConfig documents = Inr docs \<and>
      fst (embedPDF e v) =
        [SplitDocuments splitterConfig documents, Post (Log (Docs docs)), AddDocuments docs])"
  by (auto simp: embedPDF_def Let_def split: js_value.splits sum.splits)

lemma embedPDF_no_query: "a \<in> set (fst (embedPDF e v)) \<Longrightarrow> \<not> isQueryAction a"
  using embedPDF_trace [of e v] by auto

lemma embedPDF_success:
  "embedPDF e v = (t, Inr u) \<Longrightarrow>
     \<exists>documents docs. splitDocuments e splitterConfig documents = Inr docs \<and>
       t = [SplitDocuments splitterConfig documents, Post (Log (Docs docs)), AddDocuments docs]"
  by (auto simp: embedPDF_def Let_def split: js_value.splits sum.splits)

lemma relay_no_ingest: "a \<in> set (relay fs) \<Longrightarrow> \<not> isIngestAction a"
  by (induction fs) (auto split: if_splits)

lemma retrieval_no_ingest:
  "createRetrievalChain e h inp = (t, r) \<Longrightarrow> a \<in> set t \<Longrightarrow> \<not> isIngestAction a"
  by (auto simp: createRetrievalChain_def Let_def split: if_splits sum.splits)

lemma query_no_ingest:
  "a \<in> set (fst (queryVectorStore e msgs)) \<Longrightarrow> \<not> isIngestAction a"
  by (auto simp: queryVectorStore_def Let_def
      split: option.splits if_splits prod.splits sum.splits
      dest: retrieval_no_ingest relay_no_ingest)

text \<open>
  Claim C4. Once the answer stream has been started with prompt \<open>p\<close>, the \<open>chunk\<close>
  events the worker posts are exactly the non-empty fragments the stream yields, one
  event per fragment, in the order of the stream; an empty fragment gives no event.
\<close>
theorem chunks_forwarded_in_order:
  assumes "handler e d = (t, r)" and "Stream p \<in> set t"
  shows "chunks (events t) = filter (\<lambda>c. c \<noteq> []) (fst (llm_stream e p))"
proof (cases "truthy (pdf_field d)")
  case True
  with assms embedPDF_no_query [of "Stream p" e "pdf_field d"] show ?thesis
    by (auto simp: handler_def Let_def split: prod.splits sum.splits)
next
  case False
  obtain tq rq where q: "queryVectorStore e (messages_field d) = (tq, rq)"
    by (cases "queryVectorStore e (messages_field d)")
  with False assms have "Stream p \<in> set tq"
    by (auto simp: handler_def Let_def split: sum.splits)
  from query_chunks [OF q this] False assms q show ?thesis
    by (auto simp: handler_def Let_def events_append chunks_append split: sum.splits)
qed

theorem chunks_forwarded_in_order_witness:
  "handler demo_env \<lparr>pdf_field = JUndefined, messages_field = Some [demo_question]\<rparr>
     = ([Post (Log (Received \<lparr>pdf_field = JUndefined, messages_field = Some [demo_question]\<rparr>)),
         Retrieve ''And the title?'',
         Stream (responseChainPrompt \<lparr>r_context = [], r_chat_history = [], r_question = ''And the title?''\<rparr>),
         Post (Chunk ''Hmm''), Post (Chunk '', I am not sure.''),
         Post (Complete ''OK''), Post (Complete ''OK'')], Inr ())
   \<and> chunks (events (fst (handler demo_env \<lparr>pdf_field = JUndefined, messages_field = Some [demo_question]\<rparr>)))
     = [''Hmm'', '', I am not sure.'']"
proof -
  let ?d = "\<lparr>pdf_field = JUndefined, messages_field = Some [demo_question]\<rparr>"
  let ?p = "responseChainPrompt \<lparr>r_context = [], r_chat_history = [], r_question = ''And the title?''\<rparr>"
  have h: "handler demo_env ?d
     = ([Post (Log (Received ?d)), Retrieve ''And the title?'', Stream ?p,
         Post (Chunk ''Hmm''), Post (Chunk '', I am not sure.''),
         Post (Complete ''OK''), Post (Complete ''OK'')], Inr ())"
    by (simp add: handler_def queryVectorStore_def createRetrievalChain_def demo_env_def
        demo_question_def formatDocs_def Let_def)
  have s: "fst (llm_stream demo_env ?p) = [''Hmm'', [], '', I am not sure.'']"
    by (simp add: demo_env_def)
  from chunks_forwarded_in_order [OF h, of ?p] s show ?thesis
    using h by simp
qed

lemma retrieval_calls_only:
  "createRetrievalChain e h inp = (t, r) \<Longrightarrow> filter isRetrievalCall t = t"
  by (auto simp: createRetrievalChain_def Let_def split: if_splits sum.splits)

lemma query_retrieval_calls:
  "messages \<noteq> [] \<Longrightarrow>
   filter isRetrievalCall (fst (queryVectorStore e (Some messages))) =
     fst (createRetrievalChain e (butlast messages)
            \<lparr>question = content (last messages),
             chat_history = join nl (map historyLine (butlast messages))\<rparr>)"
  by (auto simp: queryVectorStore_def Let_def relay_no_call
      split: prod.splits sum.splits option.splits dest: retrieval_calls_only)

text \<open>
  Claim C1, evaluated on the code. A query with one message is handled to the end. When
  the model stream yields nothing the worker posts the \<open>log\<close> event and then \<open>complete\<close>
  twice: once at the end of \<open>queryVectorStore\<close> (line 171) and once more at the end of
  the handler (line 190). With two non-empty fragments the two \<open>complete\<close> events follow
  the two \<open>chunk\<close> events.
\<close>
theorem query_posts_complete_twice:
  "events (fst (handler (demo_env\<lparr>llm_stream := (\<lambda>p. ([], None))\<rparr>)
                  \<lparr>pdf_field = JUndefined, messages_field = Some [demo_question]\<rparr>))
     = [Log (Received \<lparr>pdf_field = JUndefined, messages_field = Some [demo_question]\<rparr>),
        Complete ''OK'', Complete ''OK'']
   \<and> events (fst (handler demo_env
                  \<lparr>pdf_field = JUndefined, messages_field = Some [demo_question]\<rparr>))
     = [Log (Received \<lparr>pdf_field = JUndefined, messages_field = Some [demo_question]\<rparr>),
        Chunk ''Hmm'', Chunk '', I am not sure.'', Complete ''OK'', Complete ''OK'']"
  by (simp add: handler_def queryVectorStore_def createRetrievalChain_def demo_env_def
      demo_question_def formatDocs_def Let_def)

lemma retrieval_events: "createRetrievalChain e h inp = (t, r) \<Longrightarrow> events t = []"
  by (auto simp: createRetrievalChain_def Let_def split: if_splits sum.splits)

lemma query_success_events:
  assumes "queryVectorStore e msgs = (t, Inr u)"
  shows "\<exists>p. Stream p \<in> set t \<and>
           events t = map Chunk (filter (\<lambda>c. c \<noteq> []) (fst (llm_stream e p))) @ [Complete ''OK'']"
proof -
  from assms obtain messages where m: "msgs = Some messages" "messages \<noteq> []"
    by (auto simp: queryVectorStore_def split: option.splits if_splits)
  let ?inp = "\<lparr>question = content (last messages),
               chat_history = join nl (map historyLine (butlast messages))\<rparr>"
  obtain t1 r1 where c: "createRetrievalChain e (butlast messages) ?inp = (t1, r1)"
    by (cases "createRetrievalChain e (butlast messages) ?inp")
  from assms m c obtain ctx where r1: "r1 = Inr ctx"
    by (cases r1) (auto simp: queryVectorStore_def Let_def)
  let ?p = "responseChainPrompt \<lparr>r_context = ctx,
              r_chat_history = map toBaseMessage (butlast messages),
              r_question = content (last messages)\<rparr>"
  obtain fs failure where l: "llm_stream e ?p = (fs, failure)"
    by (cases "llm_stream e ?p")
  from assms m c r1 l have t: "t = t1 @ [Stream ?p] @ relay fs @ [Post (Complete ''OK'')]"
    by (auto simp: queryVectorStore_def Let_def split: option.splits)
  have "events t = map Chunk (filter (\<lambda>c. c \<noteq> []) fs) @ [Complete ''OK'']"
    unfolding t using retrieval_events [OF c]
    by (simp add: events_append events_relay)
  moreover have "Stream ?p \<in> set t"
    unfolding t by simp
  ultimately show ?thesis
    using l by (intro exI [of _ ?p]) simp
qed

lemma completed_query_events:
  assumes "\<not> truthy (pdf_field d)" and "handler e d = (t, Inr u)"
  shows "\<exists>p. events t = Log (Received d) # map Chunk (filter (\<lambda>c. c \<noteq> []) (fst (llm_stream e p)))
                        @ [Complete ''OK'', Complete ''OK'']"
proof -
  obtain tq rq where q: "queryVectorStore e (messages_field d) = (tq, rq)"
    by (cases "queryVectorStore e (messages_field d)")
  with assms have rq: "rq = Inr ()" and t: "t = Post (Log (Received d)) # tq @ [Post (Complete ''OK'')]"
    by (auto simp: handler_def Let_def split: sum.splits)
  from query_success_events [of e "messages_field d" tq "()"] q rq
  obtain p where "events tq = map Chunk (filter (\<lambda>c. c \<noteq> []) (fst (llm_stream e p))) @ [Complete ''OK'']"
    by auto
  then show ?thesis
    unfolding t by (intro exI [of _ p]) (simp add: events_append)
qed

text \<open>
  Claim C2. When the last message is the only one, the first thing the query flow does is
  to query the index with the content of that message as it is, and among the calls of
  the retrieval step there is no call to the model.
\<close>
theorem empty_history_raw_question:
  assumes "messages \<noteq> []" and "butlast messages = []"
  shows "filter isRetrievalCall (fst (queryVectorStore e (Some messages)))
           = [Retrieve (content (last messages))]
         \<and> (\<exists>rest. fst (queryVectorStore e (Some messages))
                      = Retrieve (content (last messages)) # rest)"
  using assms
  by (auto simp: queryVectorStore_def createRetrievalChain_def Let_def relay_no_call
      split: sum.splits prod.splits option.splits)

theorem empty_history_raw_question_witness:
  "[demo_question] \<noteq> [] \<and> butlast [demo_question] = []
   \<and> filter isRetrievalCall (fst (queryVectorStore demo_env (Some [demo_question])))
       = [Retrieve ''And the title?'']"
  using empty_history_raw_question [of "[demo_question]" demo_env]
  by (simp add: demo_question_def)

text \<open>
  Claim C3. When there is history, the retrieval step calls the model once, with the
  rephrasing template filled with the history (one line \<open>role: content\<close> per message,
  joined by newlines) and the raw question; if the model answers, its answer is the text
  the index is queried with, once and after that call. If the model call is rejected the
  index is not queried.
\<close>
theorem history_rephrased_before_retrieval:
  assumes "messages \<noteq> []" and "butlast messages \<noteq> []"
  shows "filter isRetrievalCall (fst (queryVectorStore e (Some messages))) =
           (let p = REPHRASE_HEAD
                    @ join nl (map (\<lambda>m. role m @ '': '' @ content m) (butlast messages))
                    @ REPHRASE_MID @ content (last messages) @ REPHRASE_TAIL
            in case llm_invoke e p of
                 Inl err \<Rightarrow> [Invoke p]
               | Inr standalone \<Rightarrow> [Invoke p, Retrieve standalone])"
proof -
  have hl: "historyLine = (\<lambda>m. role m @ '': '' @ content m)"
    by (rule ext) (simp add: historyLine_def)
  from assms(2) have len: "\<not> length messages \<le> Suc 0"
    by (cases messages rule: rev_cases) auto
  show ?thesis
    unfolding query_retrieval_calls [OF assms(1)] hl
    using len
    by (cases "llm_invoke e (REPHRASE_HEAD
                    @ join nl (map (\<lambda>m. role m @ '': '' @ content m) (butlast messages))
                    @ REPHRASE_MID @ content (last messages) @ REPHRASE_TAIL)")
       (simp_all add: createRetrievalChain_def rephraseQuestionChainPrompt_def Let_def
          split: sum.splits)
qed

theorem history_rephrased_before_retrieval_witness:
  "demo_history @ [demo_question] \<noteq> [] \<and> butlast (demo_history @ [demo_question]) \<noteq> []
   \<and> filter isRetrievalCall (fst (queryVectorStore demo_env (Some (demo_history @ [demo_question]))))
       = [Invoke (REPHRASE_HEAD @ ''human: Hi'' @ nl @ ''ai: Hello'' @ REPHRASE_MID
                    @ ''And the title?'' @ REPHRASE_TAIL),
          Retrieve ''What is the title?'']"
  using history_rephrased_before_retrieval [of "demo_history @ [demo_question]" demo_env]
  by (simp add: demo_history_def demo_question_def demo_env_def Let_def)

text \<open>
  Claim C9. On an empty messages array \<open>queryVectorStore\<close> fails with a TypeError before
  it calls any service or posts any event, and the handler ends after its first \<open>log\<close>
  event, without \<open>complete\<close>.
\<close>
theorem empty_messages_type_error:
  "queryVectorStore e (Some []) = ([], Inl TypeError)
   \<and> handler e \<lparr>pdf_field = JUndefined, messages_field = Some []\<rparr>
       = ([Post (Log (Received \<lparr>pdf_field = JUndefined, messages_field = Some []\<rparr>))], Inl TypeError)"
  by (simp add: queryVectorStore_def handler_def)

section \<open>Properties of the handler and of the ingest flow\<close>

text \<open>
  Claim C10. The handler looks at the truthiness of the \<open>pdf\<close> field only. When it is
  truthy the run is the first \<open>log\<close> event, the run of \<open>embedPDF\<close> on that field and, if
  that succeeded, \<open>complete\<close>; nothing of the query flow happens, whatever the
  \<open>messages\<close> field holds. When it is absent, the empty string or otherwise falsy, the run
  is the first \<open>log\<close> event, the run of \<open>queryVectorStore\<close> on the \<open>messages\<close> field
  (absent or not) and, if that succeeded, \<open>complete\<close>; nothing of the ingest flow happens.
\<close>
theorem dispatch_on_pdf_truthiness:
  "(truthy (pdf_field d) \<longrightarrow>
      handler e d =
        (Post (Log (Received d)) # fst (embedPDF e (pdf_field d))
           @ (case snd (embedPDF e (pdf_field d)) of
                Inl err \<Rightarrow> [] | Inr u \<Rightarrow> [Post (Complete ''OK'')]),
         snd (embedPDF e (pdf_field d)))
      \<and> (\<forall>a\<in>set (fst (handler e d)). \<not> isQueryAction a))
   \<and> (\<not> truthy (pdf_field d) \<longrightarrow>
      handler e d =
        (Post (Log (Received d)) # fst (queryVectorStore e (messages_field d))
           @ (case snd (queryVectorStore e (messages_field d)) of
                Inl err \<Rightarrow> [] | Inr u \<Rightarrow> [Post (Complete ''OK'')]),
         snd (queryVectorStore e (messages_field d)))
      \<and> (\<forall>a\<in>set (fst (handler e d)). \<not> isIngestAction a))"
proof (intro conjI impI)
  assume t: "truthy (pdf_field d)"
  then show h: "handler e d =
        (Post (Log (Received d)) # fst (embedPDF e (pdf_field d))
           @ (case snd (embedPDF e (pdf_field d)) of
                Inl err \<Rightarrow> [] | Inr u \<Rightarrow> [Post (Complete ''OK'')]),
         snd (embedPDF e (pdf_field d)))"
    by (simp add: handler_def Let_def split: prod.splits sum.splits)
  show "\<forall>a\<in>set (fst (handler e d)). \<not> isQueryAction a"
    unfolding h using embedPDF_no_query [of _ e "pdf_field d"]
    by (auto split: sum.splits)
next
  assume f: "\<not> truthy (pdf_field d)"
  then show h: "handler e d =
        (Post (Log (Received d)) # fst (queryVectorStore e (messages_field d))
           @ (case snd (queryVectorStore e (messages_field d)) of
                Inl err \<Rightarrow> [] | Inr u \<Rightarrow> [Post (Complete ''OK'')]),
         snd (queryVectorStore e (messages_field d)))"
    by (simp add: handler_def Let_def split: prod.splits sum.splits)
  show "\<forall>a\<in>set (fst (handler e d)). \<not> isIngestAction a"
    unfolding h using query_no_ingest [of _ e "messages_field d"]
    by (auto split: sum.splits)
qed

text \<open>
  Claim C5. A handled ingest message that succeeds does, after the handler's first
  \<open>log\<close> event and the call of the splitter, exactly this: it posts a \<open>log\<close> event with
  the list of chunks the splitter returned, inserts that same list into the vector store,
  and posts one \<open>complete\<close> event with the value \<open>OK\<close>; nothing follows.
\<close>
theorem ingest_log_insert_complete:
  assumes "truthy (pdf_field d)" and "handler e d = (t, Inr u)"
  shows "\<exists>documents docs.
           splitDocuments e splitterConfig documents = Inr docs \<and>
           t = [Post (Log (Received d)), SplitDocuments splitterConfig documents,
                Post (Log (Docs docs)), AddDocuments docs, Post (Complete ''OK'')]"
proof -
  obtain ti ri where i: "embedPDF e (pdf_field d) = (ti, ri)"
    by (cases "embedPDF e (pdf_field d)")
  with assms have ri: "ri = Inr ()" and t: "t = Post (Log (Received d)) # ti @ [Post (Complete ''OK'')]"
    by (auto simp: handler_def Let_def split: sum.splits)
  from embedPDF_success [of e "pdf_field d" ti "()"] i ri
  obtain documents docs where "splitDocuments e splitterConfig documents = Inr docs"
    and "ti = [SplitDocuments splitterConfig documents, Post (Log (Docs docs)), AddDocuments docs]"
    by auto
  then show ?thesis
    unfolding t by auto
qed

theorem ingest_log_insert_complete_witness:
  "truthy (JString demo_url)
   \<and> events (fst (handler demo_env \<lparr>pdf_field = JString demo_url, messages_field = None\<rparr>)) =
       [Log (Received \<lparr>pdf_field = JString demo_url, messages_field = None\<rparr>),
        Log (Docs
          [\<lparr>pageContent = Some (''Hello'' @ nl @ ''World''),
            doc_meta = \<lparr>pdf = \<lparr>version = ''1.10.100'', info = Some [(''Title'', ''Demo'')],
                               metadata = Some None, totalPages = 3\<rparr>,
                        loc = \<lparr>pageNumber = 1\<rparr>\<rparr>\<rparr>,
           \<lparr>pageContent = Some ''Bye'',
            doc_meta = \<lparr>pdf = \<lparr>version = ''1.10.100'', info = Some [(''Title'', ''Demo'')],
                               metadata = Some None, totalPages = 3\<rparr>,
                        loc = \<lparr>pageNumber = 3\<rparr>\<rparr>\<rparr>]),
        Complete ''OK'']"
proof -
  let ?d = "\<lparr>pdf_field = JString demo_url, messages_field = None\<rparr>"
  have tr: "truthy (pdf_field ?d)"
    by (simp add: demo_url_def)
  have ok: "handler demo_env ?d = (fst (handler demo_env ?d), Inr ())"
    by code_simp
  have ev: "events (fst (handler demo_env ?d)) =
       [Log (Received ?d),
        Log (Docs
          [\<lparr>pageContent = Some (''Hello'' @ nl @ ''World''),
            doc_meta = \<lparr>pdf = \<lparr>version = ''1.10.100'', info = Some [(''Title'', ''Demo'')],
                               metadata = Some None, totalPages = 3\<rparr>,
                        loc = \<lparr>pageNumber = 1\<rparr>\<rparr>\<rparr>,
           \<lparr>pageContent = Some ''Bye'',
            doc_meta = \<lparr>pdf = \<lparr>version = ''1.10.100'', info = Some [(''Title'', ''Demo'')],
                               metadata = Some None, totalPages = 3\<rparr>,
                        loc = \<lparr>pageNumber = 3\<rparr>\<rparr>\<rparr>]),
        Complete ''OK'']"
    by code_simp
  from ingest_log_insert_complete [OF tr ok] tr ev show ?thesis
    by simp
qed

theorem dispatch_on_pdf_truthiness_witness:
  "truthy (pdf_field \<lparr>pdf_field = JString demo_url, messages_field = Some [demo_question]\<rparr>)
   \<and> filter isQueryAction (fst (handler demo_env
          \<lparr>pdf_field = JString demo_url, messages_field = Some [demo_question]\<rparr>)) = []
   \<and> \<not> truthy (pdf_field \<lparr>pdf_field = JString [], messages_field = Some [demo_question]\<rparr>)
   \<and> filter isIngestAction (fst (handler demo_env
          \<lparr>pdf_field = JString [], messages_field = Some [demo_question]\<rparr>)) = []
   \<and> \<not> truthy (pdf_field \<lparr>pdf_field = JUndefined, messages_field = None\<rparr>)
   \<and> handler demo_env \<lparr>pdf_field = JUndefined, messages_field = None\<rparr>
       = ([Post (Log (Received \<lparr>pdf_field = JUndefined, messages_field = None\<rparr>))], Inl TypeError)"
  using dispatch_on_pdf_truthiness
          [of "\<lparr>pdf_field = JString demo_url, messages_field = Some [demo_question]\<rparr>" demo_env]
        dispatch_on_pdf_truthiness
          [of "\<lparr>pdf_field = JString [], messages_field = Some [demo_question]\<rparr>" demo_env]
        dispatch_on_pdf_truthiness
          [of "\<lparr>pdf_field = JUndefined, messages_field = None\<rparr>" demo_env]
  by (simp add: demo_url_def queryVectorStore_def filter_empty_conv)


lemma pagesLoop_absentMeta:
  "pagesLoop e parsedPdf None i (map absentMeta documents) =
     map_sum id (map absentMeta) (pagesLoop e parsedPdf (Some m) i documents)"
proof (induction e parsedPdf "Some m" i documents rule: pagesLoop.induct)
  case (1 e parsedPdf i documents)
  have doc: "\<And>items. pageDocument e parsedPdf None i items
               = absentMeta (pageDocument e parsedPdf (Some m) i items)"
    by (simp add: pageDocument_def newDocument_def absentMeta_def)
  show ?case
  proof (cases "i \<le> numPages parsedPdf")
    case False
    then show ?thesis
      by (simp add: pagesLoop.simps [of e parsedPdf _ i])
  next
    case True
    show ?thesis
    proof (cases "getPage parsedPdf i")
      case (Inl err)
      with True show ?thesis
        by (simp add: pagesLoop.simps [of e parsedPdf _ i])
    next
      case (Inr page)
      show ?thesis
      proof (cases "getTextContent page")
        case (Inl err)
        with True Inr show ?thesis
          by (simp add: pagesLoop.simps [of e parsedPdf _ i])
      next
        case items: (Inr items)
        show ?thesis
        proof (cases "length items = 0")
          case empty: True
          from "1.hyps"(1) [OF True Inr items empty] True Inr items empty show ?thesis
            by (simp add: pagesLoop.simps [of e parsedPdf _ i])
        next
          case nonempty: False
          from "1.hyps"(2) [OF True Inr items nonempty] True Inr items nonempty show ?thesis
            by (simp add: pagesLoop.simps [of e parsedPdf _ i] doc)
        qed
      qed
    qed
  qed
qed





text \<open>
  Claim C8. When \<open>getMetadata\<close> is rejected, the ingest flow is what it would be had
  any metadata \<open>m\<close> been read, except that the documents handed to the splitter have
  their \<open>info\<close> and \<open>metadata\<close> fields absent: the pages are read in the same way,
  the same pages are kept with the same text, the splitter and the vector store are
  called as before, and the flow fails only where reading a page, splitting or inserting
  fails. The error of \<open>getMetadata\<close> is never the outcome.
\<close>
theorem metadata_failure_absorbed:
  assumes "atob e (index (split_on CHR '','' url) 1) = Inr bytes"
    and "getDocument e bytes = Inr parsedPdf"
    and "getMetadata parsedPdf = Inl err"
  shows "embedPDF e (JString url) =
           (case pagesLoop e parsedPdf (Some m) 1 [] of
              Inl x \<Rightarrow> ([], Inl x)
            | Inr documents \<Rightarrow>
                (case splitDocuments e splitterConfig (map absentMeta documents) of
                   Inl x \<Rightarrow> ([SplitDocuments splitterConfig (map absentMeta documents)], Inl x)
                 | Inr docs \<Rightarrow>
                     ([SplitDocuments splitterConfig (map absentMeta documents),
                       Post (Log (Docs docs)), AddDocuments docs],
                      case addDocuments e docs of Inl x \<Rightarrow> Inl x | Inr u \<Rightarrow> Inr ())))"
proof -
  have "pagesLoop e parsedPdf None 1 [] =
          map_sum id (map absentMeta) (pagesLoop e parsedPdf (Some m) 1 [])"
    using pagesLoop_absentMeta [of e parsedPdf 1 "[]" m] by simp
  with assms show ?thesis
    by (cases "pagesLoop e parsedPdf (Some m) 1 []")
       (simp_all add: embedPDF_def Let_def split: sum.splits)
qed

theorem metadata_failure_absorbed_witness:
  "atob demo_env_no_meta (index (split_on CHR '','' demo_url) 1) = Inr ''JVBERi0=''
   \<and> getDocument demo_env_no_meta ''JVBERi0=''
       = Inr (demo_pdf\<lparr>getMetadata := Inl (Rejected ''no metadata'')\<rparr>)
   \<and> getMetadata (demo_pdf\<lparr>getMetadata := Inl (Rejected ''no metadata'')\<rparr>)
       = Inl (Rejected ''no metadata'')
   \<and> embedPDF demo_env_no_meta (JString demo_url) =
       ([SplitDocuments splitterConfig
           [\<lparr>pageContent = Some (''Hello'' @ nl @ ''World''),
             doc_meta = \<lparr>pdf = \<lparr>version = ''1.10.100'', info = None,
                                metadata = None, totalPages = 3\<rparr>,
                         loc = \<lparr>pageNumber = 1\<rparr>\<rparr>\<rparr>,
            \<lparr>pageContent = Some ''Bye'',
             doc_meta = \<lparr>pdf = \<lparr>version = ''1.10.100'', info = None,
                                metadata = None, totalPages = 3\<rparr>,
                         loc = \<lparr>pageNumber = 3\<rparr>\<rparr>\<rparr>],
         Post (Log (Docs
           [\<lparr>pageContent = Some (''Hello'' @ nl @ ''World''),
             doc_meta = \<lparr>pdf = \<lparr>version = ''1.10.100'', info = None,
                                metadata = None, totalPages = 3\<rparr>,
                         loc = \<lparr>pageNumber = 1\<rparr>\<rparr>\<rparr>,
            \<lparr>pageContent = Some ''Bye'',
             doc_meta = \<lparr>pdf = \<lparr>version = ''1.10.100'', info = None,
                                metadata = None, totalPages = 3\<rparr>,
                         loc = \<lparr>pageNumber = 3\<rparr>\<rparr>\<rparr>])),
         AddDocuments
           [\<lparr>pageContent = Some (''Hello'' @ nl @ ''World''),
             doc_meta = \<lparr>pdf = \<lparr>version = ''1.10.100'', info = None,
                                metadata = None, totalPages = 3\<rparr>,
                         loc = \<lparr>pageNumber = 1\<rparr>\<rparr>\<rparr>,
            \<lparr>pageContent = Some ''Bye'',
             doc_meta = \<lparr>pdf = \<lparr>version = ''1.10.100'', info = None,
                                metadata = None, totalPages = 3\<rparr>,
                         loc = \<lparr>pageNumber = 3\<rparr>\<rparr>\<rparr>]], Inr ())"
proof -
  let ?pdf = "demo_pdf\<lparr>getMetadata := Inl (Rejected ''no metadata'')\<rparr>"
  let ?m = "\<lparr>meta_info = Some [(''Title'', ''Demo'')], meta_metadata = None\<rparr>"
  have a: "atob demo_env_no_meta (index (split_on CHR '','' demo_url) 1) = Inr ''JVBERi0=''"
    by code_simp
  have g: "getDocument demo_env_no_meta ''JVBERi0='' = Inr ?pdf"
    by (simp add: demo_env_no_meta_def demo_env_def)
  have f: "getMetadata ?pdf = Inl (Rejected ''no metadata'')"
    by simp
  let ?docs = "[\<lparr>pageContent = Some (''Hello'' @ nl @ ''World''),
             doc_meta = \<lparr>pdf = \<lparr>version = ''1.10.100'', info = None,
                                metadata = None, totalPages = 3\<rparr>,
                         loc = \<lparr>pageNumber = 1\<rparr>\<rparr>\<rparr>,
            \<lparr>pageContent = Some ''Bye'',
             doc_meta = \<lparr>pdf = \<lparr>version = ''1.10.100'', info = None,
                                metadata = None, totalPages = 3\<rparr>,
                         loc = \<lparr>pageNumber = 3\<rparr>\<rparr>\<rparr>]"
  have "embedPDF demo_env_no_meta (JString demo_url) =
           (case pagesLoop demo_env_no_meta ?pdf (Some ?m) 1 [] of
              Inl x \<Rightarrow> ([], Inl x)
            | Inr documents \<Rightarrow>
                (case splitDocuments demo_env_no_meta splitterConfig (map absentMeta documents) of
                   Inl x \<Rightarrow> ([SplitDocuments splitterConfig (map absentMeta documents)], Inl x)
                 | Inr docs \<Rightarrow>
                     ([SplitDocuments splitterConfig (map absentMeta documents),
                       Post (Log (Docs docs)), AddDocuments docs],
                      case addDocuments demo_env_no_meta docs of Inl x \<Rightarrow> Inl x | Inr u \<Rightarrow> Inr ())))"
    by (rule metadata_failure_absorbed [OF a g f])
  also have "\<dots> = ([SplitDocuments splitterConfig ?docs, Post (Log (Docs ?docs)),
                     AddDocuments ?docs], Inr ())"
    by code_simp
  finally show ?thesis
    using a g f by simp
qed

section \<open>Properties of splitting\<close>








end
